theory Spec2Isabelle
  imports Main "HOL-Library.AList"
begin

section \<open>Portfolio manager script (update\_portfolio.sh, GitHub Releases part)\<close>

text \<open>
  The shell functions \<^verbatim>\<open>extract_photo_info\<close>, \<^verbatim>\<open>scan_portfolio\<close>,
  \<^verbatim>\<open>manage_release\<close>, \<^verbatim>\<open>update_photo\<close> and the \<^verbatim>\<open>setup\<close> and
  \<^verbatim>\<open>update\<close> cases of \<^verbatim>\<open>main\<close> are embedded as functions on strings and on
  an explicit state: the contents of \<^verbatim>\<open>photos.json\<close>, the release on the host and
  a log of the files handed over for upload. The script runs under \<^verbatim>\<open>set -e\<close>; every
  \<^verbatim>\<open>exit 1\<close> and every failing command is an error value returned with the state
  reached so far.

  Strings are byte lists. File names are single lines (the tools in the pipelines work
  line by line). \<^verbatim>\<open>photos.json\<close>, when it exists, is a JSON array of objects, as the
  script writes it. \<^verbatim>\<open>check_dependencies\<close> is taken to pass, and \<^verbatim>\<open>gh release view\<close>
  and \<^verbatim>\<open>gh release delete\<close> to answer according to the state of the release.
\<close>

subsection \<open>Configuration\<close>

definition GITHUB_USER :: string where "GITHUB_USER = ''jodiejacobs''"
definition REPO_NAME :: string where "REPO_NAME = ''jodiejacobs-photography''"
definition RELEASE_TAG :: string where "RELEASE_TAG = ''v1.0.0''"

definition BASE_URL :: string where
  "BASE_URL = ''https://github.com/'' @ GITHUB_USER @ ''/'' @ REPO_NAME
                @ ''/releases/download/'' @ RELEASE_TAG"

subsection \<open>The text utilities the script pipes through\<close>

fun starts_with :: "string \<Rightarrow> string \<Rightarrow> bool" where
  "starts_with s [] = True"
| "starts_with [] (k # ks) = False"
| "starts_with (c # s) (k # ks) = (c = k \<and> starts_with s ks)"

text \<open>An unanchored regular-expression search for a literal: is \<open>kw\<close> a substring of \<open>s\<close>.\<close>

fun contains :: "string \<Rightarrow> string \<Rightarrow> bool" where
  "contains [] kw = (kw = [])"
| "contains (c # s) kw = (starts_with (c # s) kw \<or> contains s kw)"

text \<open>\<^verbatim>\<open>[[ "$s" =~ (k1|k2|...) ]]\<close>: some alternative occurs in \<open>s\<close>; the match is case
  sensitive (\<^verbatim>\<open>nocasematch\<close> is never set).\<close>

definition re_search :: "string list \<Rightarrow> string \<Rightarrow> bool" where
  "re_search alternatives s = list_ex (contains s) alternatives"

text \<open>\<^verbatim>\<open>[[ "$s" =~ _([^_]+)$ ]]\<close>: the non-empty text after the last underscore, when
  \<open>s\<close> has an underscore and does not end in one; the result is \<^verbatim>\<open>BASH_REMATCH[1]\<close>.\<close>

definition last_segment :: "string \<Rightarrow> string option" where
  "last_segment s =
     (let seg = rev (takeWhile (\<lambda>c. c \<noteq> CHR ''_'') (rev s))
      in if CHR ''_'' \<in> set s \<and> seg \<noteq> [] then Some seg else None)"

text \<open>\<^verbatim>\<open>basename "$f"\<close>. Trailing slashes are dropped and the last path component is
  printed. An operand that begins with a dash (and is longer than the dash) is read as
  options instead. The names a scan passes all carry an extension, and such a name is
  rejected (a dot is no option letter, and \<^verbatim>\<open>-s\<close> swallows the rest as its
  argument, leaving no operand): nothing is printed on standard output, and the exit
  status is lost in the pipeline. The model takes every operand of that form so.\<close>

definition read_as_options :: "string \<Rightarrow> bool" where
  "read_as_options f = (starts_with f ''-'' \<and> f \<noteq> ''-'')"

definition last_component :: "string \<Rightarrow> string" where
  "last_component f =
     (let t = dropWhile (\<lambda>c. c = CHR ''/'') (rev f)
      in if f = [] then []
         else if t = [] then ''/''
         else rev (takeWhile (\<lambda>c. c \<noteq> CHR ''/'') t))"

definition basename_cmd :: "string \<Rightarrow> string" where
  "basename_cmd f = (if read_as_options f then [] else last_component f)"

text \<open>\<^verbatim>\<open>sed 's/\.[^.]*$//'\<close>: delete from the last dot to the end of the line.\<close>

definition sed_strip_ext :: "string \<Rightarrow> string" where
  "sed_strip_ext s =
     (if CHR ''.'' \<in> set s
      then rev (tl (dropWhile (\<lambda>c. c \<noteq> CHR ''.'') (rev s)))
      else s)"

text \<open>\<^verbatim>\<open>echo "$s"\<close> (the bash builtin) with one argument: a dash followed by one or
  more of the letters n, e, E is an option and nothing but at most a newline is
  printed; anything else is printed as it is.\<close>

definition echo_option :: "string \<Rightarrow> bool" where
  "echo_option s =
     (case s of
        [] \<Rightarrow> False
      | c # fl \<Rightarrow> c = CHR ''-'' \<and> fl \<noteq> [] \<and> list_all (\<lambda>x. x \<in> set ''neE'') fl)"

definition echo :: "string \<Rightarrow> string" where
  "echo s = (if echo_option s then [] else s)"

text \<open>\<^verbatim>\<open>tr '[:lower:]' '[:upper:]'\<close> on bytes: the letters a to z go to A to Z.\<close>

definition to_upper :: "char \<Rightarrow> char" where
  "to_upper c =
     (case map_of (zip ''abcdefghijklmnopqrstuvwxyz'' ''ABCDEFGHIJKLMNOPQRSTUVWXYZ'') c of
        Some u \<Rightarrow> u
      | None \<Rightarrow> c)"

definition tr_upper :: "string \<Rightarrow> string" where
  "tr_upper s = map to_upper s"

text \<open>\<^verbatim>\<open>cut -d'|' -f1\<close> and \<^verbatim>\<open>cut -d'|' -f2\<close> on one line; a line without the
  delimiter is printed whole for either field.\<close>

definition cut_f1 :: "string \<Rightarrow> string" where
  "cut_f1 s = takeWhile (\<lambda>c. c \<noteq> CHR ''|'') s"

definition cut_f2 :: "string \<Rightarrow> string" where
  "cut_f2 s =
     (if CHR ''|'' \<in> set s
      then takeWhile (\<lambda>c. c \<noteq> CHR ''|'') (tl (dropWhile (\<lambda>c. c \<noteq> CHR ''|'') s))
      else s)"

subsection \<open>extract\_photo\_info\<close>

definition street_keywords :: "string list" where
  "street_keywords = [''street'', ''urban'', ''city'']"

definition faces_keywords :: "string list" where
  "faces_keywords = [''face'', ''portrait'', ''person'', ''people'']"

definition nature_keywords :: "string list" where
  "nature_keywords = [''nature'', ''landscape'', ''forest'', ''mountain'', ''ocean'', ''tree'']"

definition default_category :: string where
  "default_category = ''street''"

definition stem :: "string \<Rightarrow> string" where
  "stem filename = sed_strip_ext (basename_cmd filename)"

definition detect_category :: "string \<Rightarrow> string" where
  "detect_category basename =
     (if re_search street_keywords basename then ''street''
      else if re_search faces_keywords basename then ''faces''
      else if re_search nature_keywords basename then ''nature''
      else default_category)"

definition extract_title :: "string \<Rightarrow> string" where
  "extract_title basename =
     (case last_segment basename of
        Some m \<Rightarrow> tr_upper (echo m)
      | None \<Rightarrow> tr_upper (echo basename))"

definition extract_photo_info :: "string \<Rightarrow> string" where
  "extract_photo_info filename =
     (let basename = stem filename;
          category = detect_category basename;
          title = extract_title basename
      in category @ ''|'' @ title)"

subsection \<open>The metadata file and the release\<close>

text \<open>A record of \<^verbatim>\<open>photos.json\<close> is a JSON object: its keys in the order jq prints
  them, each with a value. The script writes integers (the ids), strings and null.\<close>

datatype json = JNull | JNum int | JStr string

type_synonym photo = "(string \<times> json) list"

text \<open>jq's \<^verbatim>\<open>.key\<close> on an object: the value, or null when the key is absent.\<close>

definition field :: "photo \<Rightarrow> string \<Rightarrow> json" where
  "field p k = (case map_of p k of Some v \<Rightarrow> v | None \<Rightarrow> JNull)"

text \<open>The state the script reads and writes: \<^verbatim>\<open>photos.json\<close> (\<open>None\<close> while the
  file does not exist), the assets of the release \<^verbatim>\<open>RELEASE_TAG\<close> on the host (\<open>None\<close>
  while there is no such release), and the files handed to the host for upload so far.\<close>

record world =
  photos_json :: "photo list option"
  release :: "string list option"
  uploads :: "string list"

text \<open>The host, as far as the script depends on it: which files it accepts, and what
  it leaves of the release when \<^verbatim>\<open>gh release create\<close> fails (the script never looks).\<close>

record host =
  upload_ok :: "string \<Rightarrow> bool"
  after_failed_create :: "string list \<Rightarrow> string list option"

text \<open>The reasons for which the script stops with a non-zero status (\<^verbatim>\<open>exit 1\<close>, or a
  failing command under \<^verbatim>\<open>set -e\<close>).\<close>

datatype error =
    PortfolioDirNotFound
  | PhotosJsonNotFound
  | NoImageFiles
  | ReleaseCreateFailed
  | MissingArguments

type_synonym outcome = "error option \<times> world"

subsection \<open>The directory listing\<close>

text \<open>A directory is the list of its entries in the order in which the shell sorts a
  glob expansion, each with the answer of \<^verbatim>\<open>[[ -f ... ]]\<close>. A pattern \<^verbatim>\<open>*.jpg\<close>
  matches the names with that ending that do not begin with a dot; with \<^verbatim>\<open>nullglob\<close> a
  pattern without a match expands to nothing.\<close>

type_synonym entry = "string \<times> bool"

definition ends_with :: "string \<Rightarrow> string \<Rightarrow> bool" where
  "ends_with s sfx = starts_with (rev s) (rev sfx)"

definition glob_match :: "string \<Rightarrow> string \<Rightarrow> bool" where
  "glob_match sfx n = (\<not> starts_with n ''.'' \<and> ends_with n sfx)"

definition image_suffixes :: "string list" where
  "image_suffixes = [''.jpg'', ''.jpeg'', ''.png'', ''.JPG'', ''.JPEG'', ''.PNG'']"

definition expand_globs :: "entry list \<Rightarrow> entry list" where
  "expand_globs es = concat (map (\<lambda>sfx. filter (\<lambda>e. glob_match sfx (fst e)) es) image_suffixes)"

text \<open>The names the loops of \<^verbatim>\<open>scan_portfolio\<close> and \<^verbatim>\<open>manage_release\<close> keep.\<close>

definition image_files :: "entry list \<Rightarrow> string list" where
  "image_files es = map fst (filter snd (expand_globs es))"

subsection \<open>scan\_portfolio\<close>

definition photo_obj :: "int \<Rightarrow> string \<Rightarrow> string \<Rightarrow> photo" where
  "photo_obj photo_id filename date =
     (let info = extract_photo_info filename;
          category = cut_f1 info;
          title = cut_f2 info
      in [(''id'', JNum photo_id),
          (''title'', JStr title),
          (''category'', JStr category),
          (''thumbnail'', JStr (BASE_URL @ ''/'' @ filename)),
          (''full'', JStr (BASE_URL @ ''/'' @ filename)),
          (''lat'', JNull),
          (''lng'', JNull),
          (''location'', JStr ''Unknown''),
          (''date'', JStr date),
          (''filename'', JStr filename),
          (''original_file'', JStr filename)])"

text \<open>The \<^verbatim>\<open>for img in ...\<close> loop with its two variables \<^verbatim>\<open>photo_id\<close> and
  \<^verbatim>\<open>photos_array\<close>; \<open>date\<close> is what \<^verbatim>\<open>date +%Y-%m-%d\<close> prints.\<close>

fun scan_loop :: "string \<Rightarrow> entry list \<Rightarrow> int \<Rightarrow> photo list \<Rightarrow> photo list" where
  "scan_loop date [] photo_id photos_array = photos_array"
| "scan_loop date ((filename, is_file) # imgs) photo_id photos_array =
     (if \<not> is_file then scan_loop date imgs photo_id photos_array
      else scan_loop date imgs (photo_id + 1)
             (photos_array @ [photo_obj photo_id filename date]))"

text \<open>\<open>portfolio\<close> is \<open>None\<close> when \<^verbatim>\<open>PORTFOLIO_DIR\<close> is not a directory.\<close>

definition scan_portfolio :: "entry list option \<Rightarrow> string \<Rightarrow> world \<Rightarrow> outcome" where
  "scan_portfolio portfolio date w =
     (case portfolio of
        None \<Rightarrow> (Some PortfolioDirNotFound, w)
      | Some es \<Rightarrow>
          (None, w\<lparr>photos_json := Some (scan_loop date (expand_globs es) 1 [])\<rparr>))"

subsection \<open>manage\_release\<close>

text \<open>\<^verbatim>\<open>gh release create\<close> takes all image files in one command; it succeeds when the
  host accepts every file. Under \<^verbatim>\<open>set -e\<close> its failure ends the script.\<close>

definition gh_release_create :: "host \<Rightarrow> string list \<Rightarrow> world \<Rightarrow> outcome" where
  "gh_release_create h files w =
     (if list_all (upload_ok h) files
      then (None, w\<lparr>release := Some files, uploads := uploads w @ files\<rparr>)
      else (Some ReleaseCreateFailed,
            w\<lparr>release := after_failed_create h files, uploads := uploads w @ files\<rparr>))"

definition manage_release :: "bool \<Rightarrow> entry list option \<Rightarrow> host \<Rightarrow> world \<Rightarrow> outcome" where
  "manage_release force_recreate portfolio h w =
     (if release w \<noteq> None \<and> \<not> force_recreate then (None, w)
      else
        let w1 = (if release w \<noteq> None then w\<lparr>release := None\<rparr> else w);
            files = image_files (case portfolio of None \<Rightarrow> [] | Some es \<Rightarrow> es)
        in if files = [] then (Some NoImageFiles, w1)
           else gh_release_create h files w1)"

subsection \<open>update\_photo\<close>

text \<open>jq's \<^verbatim>\<open>map(if .filename == $filename then .[$field] = $value else . end)\<close>;
  \<^verbatim>\<open>$value\<close> is always a string (\<^verbatim>\<open>--arg\<close>). Assigning to a key of an object keeps
  the key's place, and a new key goes to the end.\<close>

definition jq_update :: "string \<Rightarrow> string \<Rightarrow> string \<Rightarrow> photo list \<Rightarrow> photo list" where
  "jq_update filename fld val photos =
     map (\<lambda>p. if field p ''filename'' = JStr filename
              then AList.update fld (JStr val) p else p) photos"

definition update_photo :: "string \<Rightarrow> string \<Rightarrow> string \<Rightarrow> world \<Rightarrow> outcome" where
  "update_photo filename fld val w =
     (case photos_json w of
        None \<Rightarrow> (Some PhotosJsonNotFound, w)
      | Some photos \<Rightarrow> (None, w\<lparr>photos_json := Some (jq_update filename fld val photos)\<rparr>))"

subsection \<open>The commands setup and update of main\<close>

definition main_setup :: "bool \<Rightarrow> entry list option \<Rightarrow> string \<Rightarrow> host \<Rightarrow> world \<Rightarrow> outcome" where
  "main_setup force_flag portfolio date h w =
     (case manage_release force_flag portfolio h w of
        (Some e, w1) \<Rightarrow> (Some e, w1)
      | (None, w1) \<Rightarrow> scan_portfolio portfolio date w1)"

definition main_update :: "string \<Rightarrow> string \<Rightarrow> string \<Rightarrow> world \<Rightarrow> outcome" where
  "main_update a2 a3 a4 w =
     (if a2 = [] \<or> a3 = [] \<or> a4 = [] then (Some MissingArguments, w)
      else update_photo a2 a3 a4 w)"

subsection \<open>Reading the state\<close>

text \<open>The records a scan builds for a list of file names, numbered from \<open>k\<close>.\<close>

fun records_from :: "string \<Rightarrow> int \<Rightarrow> string list \<Rightarrow> photo list" where
  "records_from date k [] = []"
| "records_from date k (f # fs) = photo_obj k f date # records_from date (k + 1) fs"

text \<open>The first record stored for a file name, and what it shows for a key.\<close>

definition record_of :: "string \<Rightarrow> world \<Rightarrow> photo option" where
  "record_of filename w =
     (case photos_json w of
        None \<Rightarrow> None
      | Some photos \<Rightarrow> find (\<lambda>p. field p ''filename'' = JStr filename) photos)"

definition shown :: "string \<Rightarrow> string \<Rightarrow> world \<Rightarrow> json option" where
  "shown filename k w = map_option (\<lambda>p. field p k) (record_of filename w)"

text \<open>Both coordinates null or both set.\<close>

definition paired :: "photo \<Rightarrow> bool" where
  "paired p = ((field p ''lat'' = JNull) = (field p ''lng'' = JNull))"

definition all_paired :: "world \<Rightarrow> bool" where
  "all_paired w = (case photos_json w of None \<Rightarrow> True | Some photos \<Rightarrow> list_all paired photos)"

subsection \<open>Concrete states and directories used in the examples\<close>

definition no_files_yet :: world where
  "no_files_yet = \<lparr>photos_json = None, release = None, uploads = []\<rparr>"

definition accepts_all :: host where
  "accepts_all = \<lparr>upload_ok = (\<lambda>f. True), after_failed_create = (\<lambda>fs. None)\<rparr>"

definition rejects_b :: host where
  "rejects_b = \<lparr>upload_ok = (\<lambda>f. f \<noteq> ''b.jpg''), after_failed_create = (\<lambda>fs. None)\<rparr>"

definition dir_x :: "entry list" where
  "dir_x = [(''x.jpg'', True)]"

definition dir_b :: "entry list" where
  "dir_b = [(''b.jpg'', True)]"

definition dir_ab :: "entry list" where
  "dir_ab = [(''a.jpg'', True), (''b.jpg'', True)]"

definition dir_abc :: "entry list" where
  "dir_abc = [(''a.jpg'', True), (''b.jpg'', True), (''c.jpg'', True)]"

definition released_x :: world where
  "released_x = \<lparr>photos_json = Some [photo_obj 1 ''x.jpg'' ''2025-01-15''],
                  release = Some [''x.jpg''], uploads = [''x.jpg'']\<rparr>"

definition scanned_x :: world where
  "scanned_x = snd (scan_portfolio (Some dir_x) ''2025-01-15'' no_files_yet)"

section \<open>Properties\<close>

subsection \<open>Auxiliary facts\<close>









lemma scan_loop_records:
  "scan_loop date imgs k acc = acc @ records_from date k (map fst (filter snd imgs))"
  by (induction date imgs k acc rule: scan_loop.induct) auto

lemma scan_portfolio_Some:
  "scan_portfolio (Some es) date w
     = (None, w\<lparr>photos_json := Some (records_from date 1 (image_files es))\<rparr>)"
  by (simp add: scan_portfolio_def scan_loop_records image_files_def)

lemma length_records_from: "length (records_from date k fs) = length fs"
  by (induction fs arbitrary: k) auto

lemma nth_records_from:
  "i < length fs \<Longrightarrow> records_from date k fs ! i = photo_obj (k + int i) (fs ! i) date"
proof (induction fs arbitrary: k i)
  case Nil
  then show ?case by simp
next
  case (Cons f fs)
  then show ?case by (cases i) (auto simp: algebra_simps)
qed

lemma set_records_from:
  "p \<in> set (records_from date k fs) \<Longrightarrow> \<exists>j f. f \<in> set fs \<and> p = photo_obj j f date"
proof (induction fs arbitrary: k)
  case Nil
  then show ?case by simp
next
  case (Cons a fs)
  from Cons.prems have "p = photo_obj k a date \<or> p \<in> set (records_from date (k + 1) fs)"
    by simp
  then show ?case
  proof
    assume "p = photo_obj k a date"
    then show ?thesis by auto
  next
    assume "p \<in> set (records_from date (k + 1) fs)"
    then obtain j f where "f \<in> set fs" "p = photo_obj j f date"
      using Cons.IH by blast
    then show ?thesis by auto
  qed
qed

lemma photo_obj_fields:
  "field (photo_obj k f d) ''id'' = JNum k"
  "field (photo_obj k f d) ''title'' = JStr (cut_f2 (extract_photo_info f))"
  "field (photo_obj k f d) ''category'' = JStr (cut_f1 (extract_photo_info f))"
  "field (photo_obj k f d) ''thumbnail'' = JStr (BASE_URL @ ''/'' @ f)"
  "field (photo_obj k f d) ''full'' = JStr (BASE_URL @ ''/'' @ f)"
  "field (photo_obj k f d) ''lat'' = JNull"
  "field (photo_obj k f d) ''lng'' = JNull"
  "field (photo_obj k f d) ''location'' = JStr ''Unknown''"
  "field (photo_obj k f d) ''date'' = JStr d"
  "field (photo_obj k f d) ''filename'' = JStr f"
  by (simp_all add: photo_obj_def field_def Let_def)

lemma filenames_records_from:
  "map (\<lambda>p. field p ''filename'') (records_from date k fs) = map JStr fs"
  by (induction fs arbitrary: k) (auto simp: photo_obj_fields)

lemma find_records_from:
  "find (\<lambda>p. field p ''filename'' = JStr name) (records_from date k fs) = None
     \<longleftrightarrow> name \<notin> set fs"
  by (induction fs arbitrary: k) (auto simp: photo_obj_fields)

lemma field_update_other:
  "k \<noteq> fld \<Longrightarrow> field (AList.update fld v p) k = field p k"
  by (simp add: field_def update_conv')

lemma field_update_same: "field (AList.update fld v p) fld = v"
  by (simp add: field_def update_conv')

lemma filter_update_other:
  "filter (\<lambda>kv. fst kv \<noteq> fld) (AList.update fld v p) = filter (\<lambda>kv. fst kv \<noteq> fld) p"
  by (induction p) auto

lemma jq_update_no_match:
  "find (\<lambda>p. field p ''filename'' = JStr f) photos = None \<Longrightarrow> jq_update f fld v photos = photos"
  by (induction photos) (auto simp: jq_update_def split: if_splits)








lemma image_files_examples:
  "image_files [] = []"
  "image_files dir_x = [''x.jpg'']"
  "image_files dir_b = [''b.jpg'']"
  "image_files dir_ab = [''a.jpg'', ''b.jpg'']"
  "image_files dir_abc = [''a.jpg'', ''b.jpg'', ''c.jpg'']"
  by (simp_all add: image_files_def expand_globs_def image_suffixes_def glob_match_def
      ends_with_def dir_x_def dir_b_def dir_ab_def dir_abc_def)

lemma info_examples:
  "extract_photo_info ''x.jpg'' = ''street|X''"
  "extract_photo_info ''a.jpg'' = ''street|A''"
  "extract_photo_info ''b.jpg'' = ''street|B''"
  "extract_photo_info ''c.jpg'' = ''street|C''"
  by (simp_all add: extract_photo_info_def stem_def basename_cmd_def read_as_options_def
      last_component_def sed_strip_ext_def detect_category_def re_search_def
      street_keywords_def faces_keywords_def nature_keywords_def default_category_def
      extract_title_def last_segment_def echo_def echo_option_def tr_upper_def to_upper_def)

lemma photos_json_scan:
  "photos_json (snd (scan_portfolio (Some es) date w))
     = Some (records_from date 1 (image_files es))"
  by (simp add: scan_portfolio_Some)

lemma scanned_x_eq:
  "scanned_x = \<lparr>photos_json = Some [photo_obj 1 ''x.jpg'' ''2025-01-15''],
                 release = None, uploads = []\<rparr>"
  by (simp add: scanned_x_def scan_portfolio_Some image_files_examples no_files_yet_def)

lemma update_photo_no_record:
  "record_of f w = None \<Longrightarrow> update_photo f fld v w = (fst (update_photo f fld v w), w)"
  by (cases "photos_json w") (auto simp: record_of_def update_photo_def jq_update_no_match)

lemma paired_update:
  "fld \<noteq> ''lat'' \<Longrightarrow> fld \<noteq> ''lng'' \<Longrightarrow> paired (AList.update fld v p) = paired p"
  by (simp add: paired_def field_update_other)

lemma paired_records_from: "p \<in> set (records_from date k fs) \<Longrightarrow> paired p"
  using set_records_from [of p date k fs] by (auto simp: paired_def photo_obj_fields)

lemma scan_portfolio_again:
  "scan_portfolio portfolio date w = (None, w1) \<Longrightarrow> scan_portfolio portfolio date w1 = (None, w1)"
  by (cases portfolio) (auto simp: scan_portfolio_def)

lemma manage_release_done:
  "manage_release force portfolio h w = (None, w2) \<Longrightarrow> release w2 \<noteq> None"
  by (auto simp: manage_release_def gh_release_create_def Let_def split: if_splits)

lemma manage_release_again:
  "release w2 \<noteq> None \<Longrightarrow> manage_release False portfolio h w2 = (None, w2)"
  by (simp add: manage_release_def)

lemma setup_x:
  "main_setup False (Some dir_x) ''2025-01-15'' accepts_all no_files_yet
     = (None, \<lparr>photos_json = Some [photo_obj 1 ''x.jpg'' ''2025-01-15''],
               release = Some [''x.jpg''], uploads = [''x.jpg'']\<rparr>)"
  by (simp add: main_setup_def manage_release_def gh_release_create_def scan_portfolio_Some
      image_files_examples no_files_yet_def accepts_all_def Let_def)


lemma update_photo_Some:
  "photos_json w = Some photos \<Longrightarrow>
   update_photo f fld v w = (None, w\<lparr>photos_json := Some (jq_update f fld v photos)\<rparr>)"
  by (simp add: update_photo_def)

lemma length_jq_update: "length (jq_update f fld v photos) = length photos"
  by (simp add: jq_update_def)

lemma nth_jq_update:
  "i < length photos \<Longrightarrow>
   jq_update f fld v photos ! i
     = (if field (photos ! i) ''filename'' = JStr f
        then AList.update fld (JStr v) (photos ! i) else photos ! i)"
  by (simp add: jq_update_def)

lemma main_setup_no_create:
  "release w \<noteq> None \<Longrightarrow> \<not> force \<Longrightarrow>
   main_setup force portfolio date h w = scan_portfolio portfolio date w"
  by (simp add: main_setup_def manage_release_def)

lemma manage_release_create:
  "release w = None \<or> force \<Longrightarrow>
   manage_release force (Some es) h w
     = (if image_files es = [] then (Some NoImageFiles, w\<lparr>release := None\<rparr>)
        else gh_release_create h (image_files es) (w\<lparr>release := None\<rparr>))"
  by (cases "release w") (auto simp: manage_release_def Let_def gh_release_create_def)

subsection \<open>What an edit touches\<close>

text \<open>
  C10. \<^verbatim>\<open>update_photo\<close> on an existing metadata file succeeds and rewrites the file
  with as many records as before. A record whose \<^verbatim>\<open>filename\<close> differs from the given
  one is the same record afterwards. In a record with that \<^verbatim>\<open>filename\<close> the named
  field holds the new value (a string), every other key reads as before, and the
  other entries of the object are the same ones in the same order. The release and the
  upload log are not touched.
\<close>

theorem update_photo_frame:
  assumes "photos_json w = Some photos"
  shows "\<exists>photos'.
           update_photo filename fld val w = (None, w\<lparr>photos_json := Some photos'\<rparr>)
         \<and> length photos' = length photos
         \<and> (\<forall>i<length photos.
              (field (photos ! i) ''filename'' \<noteq> JStr filename \<longrightarrow> photos' ! i = photos ! i)
            \<and> (field (photos ! i) ''filename'' = JStr filename \<longrightarrow>
                 field (photos' ! i) fld = JStr val
               \<and> (\<forall>k. k \<noteq> fld \<longrightarrow> field (photos' ! i) k = field (photos ! i) k)
               \<and> filter (\<lambda>kv. fst kv \<noteq> fld) (photos' ! i)
                   = filter (\<lambda>kv. fst kv \<noteq> fld) (photos ! i)))"
proof -
  let ?ps = "jq_update filename fld val photos"
  have run: "update_photo filename fld val w = (None, w\<lparr>photos_json := Some ?ps\<rparr>)"
    using assms by (simp add: update_photo_def)
  have len: "length ?ps = length photos"
    by (simp add: jq_update_def)
  have each: "\<forall>i<length photos.
      (field (photos ! i) ''filename'' \<noteq> JStr filename \<longrightarrow> ?ps ! i = photos ! i)
    \<and> (field (photos ! i) ''filename'' = JStr filename \<longrightarrow>
         field (?ps ! i) fld = JStr val
       \<and> (\<forall>k. k \<noteq> fld \<longrightarrow> field (?ps ! i) k = field (photos ! i) k)
       \<and> filter (\<lambda>kv. fst kv \<noteq> fld) (?ps ! i) = filter (\<lambda>kv. fst kv \<noteq> fld) (photos ! i))"
    by (simp add: jq_update_def field_update_same field_update_other filter_update_other)
  from run len each show ?thesis by blast
qed

theorem update_photo_frame_witness:
  "photos_json scanned_x = Some [photo_obj 1 ''x.jpg'' ''2025-01-15'']
   \<and> (\<exists>photos'.
         update_photo ''x.jpg'' ''title'' ''Foo'' scanned_x
           = (None, scanned_x\<lparr>photos_json := Some photos'\<rparr>)
       \<and> length photos' = 1
       \<and> field (photos' ! 0) ''title'' = JStr ''Foo''
       \<and> field (photos' ! 0) ''id'' = JNum 1)"
proof -
  have h: "photos_json scanned_x = Some [photo_obj 1 ''x.jpg'' ''2025-01-15'']"
    by (simp add: scanned_x_def scan_portfolio_Some image_files_def expand_globs_def
        image_suffixes_def glob_match_def ends_with_def dir_x_def)
  have x: "field (photo_obj 1 ''x.jpg'' ''2025-01-15'') ''filename'' = JStr ''x.jpg''"
    by (simp add: photo_obj_fields)
  from update_photo_frame [OF h, of "''x.jpg''" "''title''" "''Foo''"]
  obtain photos' where
    r: "update_photo ''x.jpg'' ''title'' ''Foo'' scanned_x
          = (None, scanned_x\<lparr>photos_json := Some photos'\<rparr>)"
    and l: "length photos' = length [photo_obj 1 ''x.jpg'' ''2025-01-15'']"
    and e: "\<forall>i<length [photo_obj 1 ''x.jpg'' ''2025-01-15''].
              (field ([photo_obj 1 ''x.jpg'' ''2025-01-15''] ! i) ''filename'' \<noteq> JStr ''x.jpg''
                 \<longrightarrow> photos' ! i = [photo_obj 1 ''x.jpg'' ''2025-01-15''] ! i)
            \<and> (field ([photo_obj 1 ''x.jpg'' ''2025-01-15''] ! i) ''filename'' = JStr ''x.jpg'' \<longrightarrow>
                 field (photos' ! i) ''title'' = JStr ''Foo''
               \<and> (\<forall>k. k \<noteq> ''title'' \<longrightarrow>
                     field (photos' ! i) k = field ([photo_obj 1 ''x.jpg'' ''2025-01-15''] ! i) k)
               \<and> filter (\<lambda>kv. fst kv \<noteq> ''title'') (photos' ! i)
                   = filter (\<lambda>kv. fst kv \<noteq> ''title'') ([photo_obj 1 ''x.jpg'' ''2025-01-15''] ! i))"
    by blast
  from e x have t: "field (photos' ! 0) ''title'' = JStr ''Foo''"
    and o: "\<forall>k. k \<noteq> ''title'' \<longrightarrow> field (photos' ! 0) k = field (photo_obj 1 ''x.jpg'' ''2025-01-15'') k"
    by auto
  from o have "field (photos' ! 0) ''id'' = JNum 1"
    by (simp add: photo_obj_fields)
  with h r l t show ?thesis by auto
qed

subsection \<open>Classification of a file name\<close>






subsection \<open>What a scan writes\<close>

text \<open>
  C1 (as the script does it). \<^verbatim>\<open>scan_portfolio\<close> starts from an empty array and
  rebuilds every record from the directory listing, so an edit made with
  \<^verbatim>\<open>update_photo\<close> lasts until the next scan only: a scan after an edit writes the
  same metadata as the scan without the edit, and in every record it writes, title
  and category are the ones inferred from the file name, location is Unknown, and lat
  and lng are null.
\<close>

theorem rescan_rebuilds_fields:
  "\<exists>photos.
      photos_json (snd (scan_portfolio (Some es) date (snd (update_photo f fld v w))))
        = Some photos
    \<and> photos_json (snd (scan_portfolio (Some es) date w)) = Some photos
    \<and> (\<forall>p\<in>set photos. \<exists>name\<in>set (image_files es).
          field p ''filename'' = JStr name
        \<and> field p ''title'' = JStr (cut_f2 (extract_photo_info name))
        \<and> field p ''category'' = JStr (cut_f1 (extract_photo_info name))
        \<and> field p ''location'' = JStr ''Unknown''
        \<and> field p ''lat'' = JNull
        \<and> field p ''lng'' = JNull)"
proof -
  let ?ps = "records_from date 1 (image_files es)"
  have "\<forall>p\<in>set ?ps. \<exists>name\<in>set (image_files es).
          field p ''filename'' = JStr name
        \<and> field p ''title'' = JStr (cut_f2 (extract_photo_info name))
        \<and> field p ''category'' = JStr (cut_f1 (extract_photo_info name))
        \<and> field p ''location'' = JStr ''Unknown''
        \<and> field p ''lat'' = JNull
        \<and> field p ''lng'' = JNull"
  proof
    fix p assume "p \<in> set ?ps"
    then obtain j name where "name \<in> set (image_files es)" "p = photo_obj j name date"
      using set_records_from by blast
    then show "\<exists>name\<in>set (image_files es).
          field p ''filename'' = JStr name
        \<and> field p ''title'' = JStr (cut_f2 (extract_photo_info name))
        \<and> field p ''category'' = JStr (cut_f1 (extract_photo_info name))
        \<and> field p ''location'' = JStr ''Unknown''
        \<and> field p ''lat'' = JNull
        \<and> field p ''lng'' = JNull"
      by (auto simp: photo_obj_fields)
  qed
  then show ?thesis
    unfolding photos_json_scan by blast
qed

theorem rescan_rebuilds_fields_witness:
  "\<exists>photos.
      photos_json (snd (scan_portfolio (Some dir_x) ''2025-01-15''
                     (snd (update_photo ''x.jpg'' ''title'' ''Foo'' scanned_x)))) = Some photos
    \<and> photos \<noteq> []
    \<and> (\<forall>p\<in>set photos. field p ''filename'' = JStr ''x.jpg'' \<and> field p ''title'' = JStr ''X'')"
proof -
  from rescan_rebuilds_fields
         [of dir_x "''2025-01-15''" "''x.jpg''" "''title''" "''Foo''" scanned_x]
  obtain photos where
    a: "photos_json (snd (scan_portfolio (Some dir_x) ''2025-01-15''
                     (snd (update_photo ''x.jpg'' ''title'' ''Foo'' scanned_x)))) = Some photos"
    and b: "\<forall>p\<in>set photos. \<exists>name\<in>set (image_files dir_x).
          field p ''filename'' = JStr name
        \<and> field p ''title'' = JStr (cut_f2 (extract_photo_info name))
        \<and> field p ''category'' = JStr (cut_f1 (extract_photo_info name))
        \<and> field p ''location'' = JStr ''Unknown''
        \<and> field p ''lat'' = JNull
        \<and> field p ''lng'' = JNull"
    by blast
  from a have ne: "photos \<noteq> []"
    by (auto simp: photos_json_scan image_files_examples)
  from b have "\<forall>p\<in>set photos. field p ''filename'' = JStr ''x.jpg'' \<and> field p ''title'' = JStr ''X''"
    by (auto simp: image_files_examples info_examples cut_f2_def)
  with a ne show ?thesis by blast
qed

text \<open>
  After \<^verbatim>\<open>update x.jpg title Foo\<close> the record shows Foo; after the next scan of the
  same directory it shows the title derived from the file name again.
\<close>

theorem rescan_keeps_edit_counterexample:
  "shown ''x.jpg'' ''title'' (snd (update_photo ''x.jpg'' ''title'' ''Foo'' scanned_x))
     = Some (JStr ''Foo'')
   \<and> shown ''x.jpg'' ''title''
       (snd (scan_portfolio (Some dir_x) ''2025-01-16''
              (snd (update_photo ''x.jpg'' ''title'' ''Foo'' scanned_x))))
     = Some (JStr ''X'')"
proof -
  have u: "shown ''x.jpg'' ''title'' (snd (update_photo ''x.jpg'' ''title'' ''Foo'' scanned_x))
     = Some (JStr ''Foo'')"
    by (simp add: scanned_x_eq update_photo_def jq_update_def shown_def record_of_def
        photo_obj_fields field_update_same field_update_other)
  have s: "shown ''x.jpg'' ''title''
       (snd (scan_portfolio (Some dir_x) ''2025-01-16''
              (snd (update_photo ''x.jpg'' ''title'' ''Foo'' scanned_x))))
     = Some (JStr ''X'')"
    by (simp add: shown_def record_of_def photos_json_scan image_files_examples
        photo_obj_fields info_examples cut_f2_def)
  from u s show ?thesis by simp
qed

text \<open>
  C3 (as the script does it). A scan numbers the image files it finds from 1 in the
  order of the listing (the six patterns in turn, each in the shell's order): the
  record at position \<open>i\<close> has id \<open>i + 1\<close> and the \<open>i\<close>-th file name. An id is the
  position of the file in the current listing, not a number kept from an earlier run.
\<close>

theorem scan_numbers_by_position:
  "\<exists>photos.
      scan_portfolio (Some es) date w = (None, w\<lparr>photos_json := Some photos\<rparr>)
    \<and> length photos = length (image_files es)
    \<and> (\<forall>i<length photos.
          field (photos ! i) ''id'' = JNum (int i + 1)
        \<and> field (photos ! i) ''filename'' = JStr (image_files es ! i))"
proof -
  let ?ps = "records_from date 1 (image_files es)"
  have "scan_portfolio (Some es) date w = (None, w\<lparr>photos_json := Some ?ps\<rparr>)"
    by (rule scan_portfolio_Some)
  moreover have "length ?ps = length (image_files es)"
    by (rule length_records_from)
  moreover have "\<forall>i<length ?ps.
          field (?ps ! i) ''id'' = JNum (int i + 1)
        \<and> field (?ps ! i) ''filename'' = JStr (image_files es ! i)"
    by (simp add: length_records_from nth_records_from photo_obj_fields)
  ultimately show ?thesis by blast
qed

theorem scan_numbers_by_position_witness:
  "\<exists>photos.
      scan_portfolio (Some dir_ab) ''2025-01-15'' no_files_yet
        = (None, no_files_yet\<lparr>photos_json := Some photos\<rparr>)
    \<and> length photos = 2
    \<and> field (photos ! 1) ''id'' = JNum 2
    \<and> field (photos ! 1) ''filename'' = JStr ''b.jpg''"
proof -
  from scan_numbers_by_position [of dir_ab "''2025-01-15''" no_files_yet]
  obtain photos where
    a: "scan_portfolio (Some dir_ab) ''2025-01-15'' no_files_yet
          = (None, no_files_yet\<lparr>photos_json := Some photos\<rparr>)"
    and b: "length photos = length (image_files dir_ab)"
    and c: "\<forall>i<length photos.
          field (photos ! i) ''id'' = JNum (int i + 1)
        \<and> field (photos ! i) ''filename'' = JStr (image_files dir_ab ! i)"
    by blast
  from b have l: "length photos = 2" by (simp add: image_files_examples)
  with c have "field (photos ! 1) ''id'' = JNum (int 1 + 1)
        \<and> field (photos ! 1) ''filename'' = JStr (image_files dir_ab ! 1)"
    by (metis one_less_numeral_iff semiring_norm(76))
  then have "field (photos ! 1) ''id'' = JNum 2
        \<and> field (photos ! 1) ''filename'' = JStr ''b.jpg''"
    by (simp add: image_files_examples)
  with a l show ?thesis by blast
qed

text \<open>
  \<^verbatim>\<open>b.jpg\<close> alone gets id 1; once \<^verbatim>\<open>a.jpg\<close> is added, the next scan gives
  \<^verbatim>\<open>b.jpg\<close> the id 2.
\<close>

theorem id_stability_counterexample:
  "shown ''b.jpg'' ''id'' (snd (scan_portfolio (Some dir_b) ''2025-01-15'' no_files_yet))
     = Some (JNum 1)
   \<and> shown ''b.jpg'' ''id''
       (snd (scan_portfolio (Some dir_ab) ''2025-01-15''
              (snd (scan_portfolio (Some dir_b) ''2025-01-15'' no_files_yet))))
     = Some (JNum 2)"
  by (simp add: shown_def record_of_def photos_json_scan image_files_examples
      photo_obj_fields)

text \<open>
  C4 (as the script does it). The metadata a scan writes has one record for each
  image file that is in the directory now, in the order of the listing, and no other
  record: a record is found for a name exactly when the name is among the image files
  of the current listing. Records of files that are gone are dropped.
\<close>

theorem scan_keeps_present_files_only:
  "(\<exists>photos.
      photos_json (snd (scan_portfolio (Some es) date w)) = Some photos
    \<and> map (\<lambda>p. field p ''filename'') photos = map JStr (image_files es))
   \<and> (record_of name (snd (scan_portfolio (Some es) date w)) = None
        \<longleftrightarrow> name \<notin> set (image_files es))"
  by (simp add: photos_json_scan record_of_def filenames_records_from find_records_from)

theorem scan_keeps_present_files_only_witness:
  "record_of ''x.jpg'' (snd (scan_portfolio (Some dir_x) ''2025-01-15'' no_files_yet)) \<noteq> None
   \<and> record_of ''a.jpg'' (snd (scan_portfolio (Some dir_x) ''2025-01-15'' no_files_yet)) = None"
  using scan_keeps_present_files_only [of dir_x "''2025-01-15''" no_files_yet "''x.jpg''"]
        scan_keeps_present_files_only [of dir_x "''2025-01-15''" no_files_yet "''a.jpg''"]
  by (simp add: image_files_examples)

text \<open>
  The record of \<^verbatim>\<open>x.jpg\<close> is stored; after the file is removed, the next scan
  writes an empty array.
\<close>

theorem no_pruning_counterexample:
  "record_of ''x.jpg'' scanned_x = Some (photo_obj 1 ''x.jpg'' ''2025-01-15'')
   \<and> photos_json (snd (scan_portfolio (Some []) ''2025-01-15'' scanned_x)) = Some []
   \<and> record_of ''x.jpg'' (snd (scan_portfolio (Some []) ''2025-01-15'' scanned_x)) = None"
  by (simp add: scanned_x_eq record_of_def photos_json_scan image_files_examples
      photo_obj_fields)

subsection \<open>When an edit fails\<close>

text \<open>
  C7 (as the script does it). \<^verbatim>\<open>update_photo\<close> stops with an error exactly when
  \<^verbatim>\<open>photos.json\<close> does not exist, and the \<^verbatim>\<open>update\<close> command exactly when one of
  its three arguments is empty or the file does not exist; a failed \<^verbatim>\<open>update_photo\<close>
  and a failed \<^verbatim>\<open>update\<close> command leave the state as it was. When the file exists
  and no record carries the file name, \<^verbatim>\<open>update_photo\<close> succeeds and leaves the state
  as it was. When the file exists, \<^verbatim>\<open>update_photo\<close> succeeds for every field name,
  known or not and \<^verbatim>\<open>filename\<close> included, keeps the number of records, and every
  record that carried the file name holds the given string under that key afterwards.
\<close>

theorem update_outcomes:
  "(fst (update_photo f fld v w) \<noteq> None \<longleftrightarrow> photos_json w = None)
 \<and> (fst (main_update f fld v w) \<noteq> None
      \<longleftrightarrow> f = [] \<or> fld = [] \<or> v = [] \<or> photos_json w = None)
 \<and> (fst (update_photo f fld v w) \<noteq> None \<longrightarrow> snd (update_photo f fld v w) = w)
 \<and> (fst (main_update f fld v w) \<noteq> None \<longrightarrow> snd (main_update f fld v w) = w)
 \<and> (photos_json w \<noteq> None \<and> record_of f w = None \<longrightarrow> update_photo f fld v w = (None, w))
 \<and> (\<forall>photos. photos_json w = Some photos \<longrightarrow>
        (\<exists>photos'.
            update_photo f fld v w = (None, w\<lparr>photos_json := Some photos'\<rparr>)
          \<and> length photos' = length photos
          \<and> (\<forall>i<length photos.
                field (photos ! i) ''filename'' = JStr f
                  \<longrightarrow> field (photos' ! i) fld = JStr v)))"
proof -
  have a: "fst (update_photo f fld v w) \<noteq> None \<longleftrightarrow> photos_json w = None"
    by (cases "photos_json w") (simp_all add: update_photo_def)
  have b: "fst (main_update f fld v w) \<noteq> None
      \<longleftrightarrow> f = [] \<or> fld = [] \<or> v = [] \<or> photos_json w = None"
    using a by (simp add: main_update_def)
  have c: "fst (update_photo f fld v w) \<noteq> None \<longrightarrow> snd (update_photo f fld v w) = w"
    by (cases "photos_json w") (simp_all add: update_photo_def)
  have c': "fst (main_update f fld v w) \<noteq> None \<longrightarrow> snd (main_update f fld v w) = w"
    using c by (simp add: main_update_def)
  have d: "photos_json w \<noteq> None \<and> record_of f w = None \<longrightarrow> update_photo f fld v w = (None, w)"
  proof
    assume h: "photos_json w \<noteq> None \<and> record_of f w = None"
    then have "fst (update_photo f fld v w) = None" using a by auto
    with h update_photo_no_record [of f w fld v] show "update_photo f fld v w = (None, w)"
      by simp
  qed
  have e: "\<forall>photos. photos_json w = Some photos \<longrightarrow>
        (\<exists>photos'.
            update_photo f fld v w = (None, w\<lparr>photos_json := Some photos'\<rparr>)
          \<and> length photos' = length photos
          \<and> (\<forall>i<length photos.
                field (photos ! i) ''filename'' = JStr f
                  \<longrightarrow> field (photos' ! i) fld = JStr v))"
  proof (intro allI impI)
    fix photos assume p: "photos_json w = Some photos"
    have "\<forall>i<length photos. field (photos ! i) ''filename'' = JStr f
            \<longrightarrow> field (jq_update f fld v photos ! i) fld = JStr v"
      by (simp add: nth_jq_update field_update_same)
    with update_photo_Some [OF p, of f fld v] length_jq_update [of f fld v photos]
    show "\<exists>photos'.
            update_photo f fld v w = (None, w\<lparr>photos_json := Some photos'\<rparr>)
          \<and> length photos' = length photos
          \<and> (\<forall>i<length photos.
                field (photos ! i) ''filename'' = JStr f
                  \<longrightarrow> field (photos' ! i) fld = JStr v)"
      by blast
  qed
  from a b c c' d e show ?thesis by blast
qed

theorem update_outcomes_witness:
  "fst (update_photo ''x.jpg'' ''title'' ''Foo'' no_files_yet) \<noteq> None
 \<and> snd (update_photo ''x.jpg'' ''title'' ''Foo'' no_files_yet) = no_files_yet
 \<and> fst (main_update ''x.jpg'' [] ''Foo'' scanned_x) \<noteq> None
 \<and> snd (main_update ''x.jpg'' [] ''Foo'' scanned_x) = scanned_x
 \<and> record_of ''a.jpg'' scanned_x = None
 \<and> update_photo ''a.jpg'' ''title'' ''Foo'' scanned_x = (None, scanned_x)
 \<and> photos_json scanned_x = Some [photo_obj 1 ''x.jpg'' ''2025-01-15'']
 \<and> (\<exists>photos'.
        update_photo ''x.jpg'' ''filename'' ''y.jpg'' scanned_x
          = (None, scanned_x\<lparr>photos_json := Some photos'\<rparr>)
      \<and> length photos' = 1
      \<and> field (photos' ! 0) ''filename'' = JStr ''y.jpg'')"
proof -
  have n: "photos_json no_files_yet = None" by (simp add: no_files_yet_def)
  have s: "photos_json scanned_x = Some [photo_obj 1 ''x.jpg'' ''2025-01-15'']"
    by (simp add: scanned_x_eq)
  have a: "record_of ''a.jpg'' scanned_x = None"
    by (simp add: scanned_x_eq record_of_def photo_obj_fields)
  have x: "field ([photo_obj 1 ''x.jpg'' ''2025-01-15''] ! 0) ''filename'' = JStr ''x.jpg''"
    by (simp add: photo_obj_fields)
  from update_outcomes [of "''x.jpg''" "''title''" "''Foo''" no_files_yet] n
  have 1: "fst (update_photo ''x.jpg'' ''title'' ''Foo'' no_files_yet) \<noteq> None"
    and 2: "snd (update_photo ''x.jpg'' ''title'' ''Foo'' no_files_yet) = no_files_yet"
    by blast+
  from update_outcomes [of "''x.jpg''" "[]" "''Foo''" scanned_x]
  have 3: "fst (main_update ''x.jpg'' [] ''Foo'' scanned_x) \<noteq> None"
    and 4: "snd (main_update ''x.jpg'' [] ''Foo'' scanned_x) = scanned_x"
    by blast+
  from update_outcomes [of "''a.jpg''" "''title''" "''Foo''" scanned_x] a s
  have 5: "update_photo ''a.jpg'' ''title'' ''Foo'' scanned_x = (None, scanned_x)"
    by (metis option.distinct(1))
  from update_outcomes [of "''x.jpg''" "''filename''" "''y.jpg''" scanned_x] s
  obtain photos' where
    r: "update_photo ''x.jpg'' ''filename'' ''y.jpg'' scanned_x
          = (None, scanned_x\<lparr>photos_json := Some photos'\<rparr>)"
    and l: "length photos' = length [photo_obj 1 ''x.jpg'' ''2025-01-15'']"
    and e: "\<forall>i<length [photo_obj 1 ''x.jpg'' ''2025-01-15''].
              field ([photo_obj 1 ''x.jpg'' ''2025-01-15''] ! i) ''filename'' = JStr ''x.jpg''
                \<longrightarrow> field (photos' ! i) ''filename'' = JStr ''y.jpg''"
    by blast
  from e x have 6: "field (photos' ! 0) ''filename'' = JStr ''y.jpg''" by simp
  from l have 7: "length photos' = 1" by simp
  from 1 2 3 4 a 5 s r 6 7 show ?thesis by blast
qed

text \<open>
  An edit for a file name without a record reports success, and so does an edit of a
  key that no record has, which is then added.
\<close>

theorem update_errors_counterexample:
  "record_of ''nosuch.jpg'' scanned_x = None
 \<and> update_photo ''nosuch.jpg'' ''title'' ''Foo'' scanned_x = (None, scanned_x)
 \<and> field (photo_obj 1 ''x.jpg'' ''2025-01-15'') ''colour'' = JNull
 \<and> fst (update_photo ''x.jpg'' ''colour'' ''red'' scanned_x) = None
 \<and> shown ''x.jpg'' ''colour'' (snd (update_photo ''x.jpg'' ''colour'' ''red'' scanned_x))
      = Some (JStr ''red'')"
  by (simp add: scanned_x_eq record_of_def shown_def update_photo_def jq_update_def
      photo_obj_fields field_update_same field_update_other)
     (simp add: photo_obj_def field_def Let_def)

subsection \<open>Coordinates\<close>

text \<open>
  C9 (as the script does it). Every record a scan writes has lat and lng both null.
  A scan of a file in which lat and lng are paired in every record leaves them paired
  in every record, and so does an edit of any field other than lat and lng. An edit
  of lat sets lat to the given string in every record that carries the file name and
  leaves lng of that record as it was, an edit of lng sets lng and leaves lat as it
  was, and either leaves every other record as it was.
\<close>

theorem coordinates_paired_unless_edited:
  "(\<exists>photos. photos_json (snd (scan_portfolio (Some es) date w)) = Some photos
       \<and> (\<forall>p\<in>set photos. field p ''lat'' = JNull \<and> field p ''lng'' = JNull))
 \<and> (all_paired w \<longrightarrow> all_paired (snd (scan_portfolio portfolio date w)))
 \<and> (all_paired w \<and> fld \<noteq> ''lat'' \<and> fld \<noteq> ''lng''
      \<longrightarrow> all_paired (snd (update_photo f fld v w)))
 \<and> (\<forall>photos. photos_json w = Some photos \<longrightarrow>
        (\<exists>photos'.
            photos_json (snd (update_photo f ''lat'' v w)) = Some photos'
          \<and> length photos' = length photos
          \<and> (\<forall>i<length photos.
                (field (photos ! i) ''filename'' = JStr f \<longrightarrow>
                   field (photos' ! i) ''lat'' = JStr v
                 \<and> field (photos' ! i) ''lng'' = field (photos ! i) ''lng'')
              \<and> (field (photos ! i) ''filename'' \<noteq> JStr f \<longrightarrow> photos' ! i = photos ! i))))
 \<and> (\<forall>photos. photos_json w = Some photos \<longrightarrow>
        (\<exists>photos'.
            photos_json (snd (update_photo f ''lng'' v w)) = Some photos'
          \<and> length photos' = length photos
          \<and> (\<forall>i<length photos.
                (field (photos ! i) ''filename'' = JStr f \<longrightarrow>
                   field (photos' ! i) ''lng'' = JStr v
                 \<and> field (photos' ! i) ''lat'' = field (photos ! i) ''lat'')
              \<and> (field (photos ! i) ''filename'' \<noteq> JStr f \<longrightarrow> photos' ! i = photos ! i))))"
proof -
  have "\<forall>p\<in>set (records_from date 1 (image_files es)).
          field p ''lat'' = JNull \<and> field p ''lng'' = JNull"
  proof
    fix p assume "p \<in> set (records_from date 1 (image_files es))"
    then obtain j name where "p = photo_obj j name date"
      using set_records_from by blast
    then show "field p ''lat'' = JNull \<and> field p ''lng'' = JNull"
      by (simp add: photo_obj_fields)
  qed
  then have a: "\<exists>photos. photos_json (snd (scan_portfolio (Some es) date w)) = Some photos
       \<and> (\<forall>p\<in>set photos. field p ''lat'' = JNull \<and> field p ''lng'' = JNull)"
    unfolding photos_json_scan by blast
  have b: "all_paired w \<longrightarrow> all_paired (snd (scan_portfolio portfolio date w))"
  proof (cases portfolio)
    case None
    then show ?thesis by (simp add: scan_portfolio_def)
  next
    case (Some es')
    then show ?thesis
      by (auto simp: all_paired_def photos_json_scan list_all_iff paired_records_from)
  qed
  have c: "all_paired w \<and> fld \<noteq> ''lat'' \<and> fld \<noteq> ''lng''
      \<longrightarrow> all_paired (snd (update_photo f fld v w))"
    by (cases "photos_json w")
       (auto simp: all_paired_def update_photo_def jq_update_def list_all_iff paired_update)
  have d: "\<forall>photos. photos_json w = Some photos \<longrightarrow>
        (\<exists>photos'.
            photos_json (snd (update_photo f ''lat'' v w)) = Some photos'
          \<and> length photos' = length photos
          \<and> (\<forall>i<length photos.
                (field (photos ! i) ''filename'' = JStr f \<longrightarrow>
                   field (photos' ! i) ''lat'' = JStr v
                 \<and> field (photos' ! i) ''lng'' = field (photos ! i) ''lng'')
              \<and> (field (photos ! i) ''filename'' \<noteq> JStr f \<longrightarrow> photos' ! i = photos ! i)))"
  proof (intro allI impI)
    fix photos assume p: "photos_json w = Some photos"
    let ?ps = "jq_update f ''lat'' v photos"
    have 1: "photos_json (snd (update_photo f ''lat'' v w)) = Some ?ps"
      by (simp add: update_photo_Some [OF p])
    have 2: "length ?ps = length photos" by (rule length_jq_update)
    have 3: "\<forall>i<length photos.
                (field (photos ! i) ''filename'' = JStr f \<longrightarrow>
                   field (?ps ! i) ''lat'' = JStr v
                 \<and> field (?ps ! i) ''lng'' = field (photos ! i) ''lng'')
              \<and> (field (photos ! i) ''filename'' \<noteq> JStr f \<longrightarrow> ?ps ! i = photos ! i)"
      by (simp add: nth_jq_update field_update_same field_update_other)
    from 1 2 3 show "\<exists>photos'.
            photos_json (snd (update_photo f ''lat'' v w)) = Some photos'
          \<and> length photos' = length photos
          \<and> (\<forall>i<length photos.
                (field (photos ! i) ''filename'' = JStr f \<longrightarrow>
                   field (photos' ! i) ''lat'' = JStr v
                 \<and> field (photos' ! i) ''lng'' = field (photos ! i) ''lng'')
              \<and> (field (photos ! i) ''filename'' \<noteq> JStr f \<longrightarrow> photos' ! i = photos ! i))"
      by blast
  qed
  have e: "\<forall>photos. photos_json w = Some photos \<longrightarrow>
        (\<exists>photos'.
            photos_json (snd (update_photo f ''lng'' v w)) = Some photos'
          \<and> length photos' = length photos
          \<and> (\<forall>i<length photos.
                (field (photos ! i) ''filename'' = JStr f \<longrightarrow>
                   field (photos' ! i) ''lng'' = JStr v
                 \<and> field (photos' ! i) ''lat'' = field (photos ! i) ''lat'')
              \<and> (field (photos ! i) ''filename'' \<noteq> JStr f \<longrightarrow> photos' ! i = photos ! i)))"
  proof (intro allI impI)
    fix photos assume p: "photos_json w = Some photos"
    let ?ps = "jq_update f ''lng'' v photos"
    have 1: "photos_json (snd (update_photo f ''lng'' v w)) = Some ?ps"
      by (simp add: update_photo_Some [OF p])
    have 2: "length ?ps = length photos" by (rule length_jq_update)
    have 3: "\<forall>i<length photos.
                (field (photos ! i) ''filename'' = JStr f \<longrightarrow>
                   field (?ps ! i) ''lng'' = JStr v
                 \<and> field (?ps ! i) ''lat'' = field (photos ! i) ''lat'')
              \<and> (field (photos ! i) ''filename'' \<noteq> JStr f \<longrightarrow> ?ps ! i = photos ! i)"
      by (simp add: nth_jq_update field_update_same field_update_other)
    from 1 2 3 show "\<exists>photos'.
            photos_json (snd (update_photo f ''lng'' v w)) = Some photos'
          \<and> length photos' = length photos
          \<and> (\<forall>i<length photos.
                (field (photos ! i) ''filename'' = JStr f \<longrightarrow>
                   field (photos' ! i) ''lng'' = JStr v
                 \<and> field (photos' ! i) ''lat'' = field (photos ! i) ''lat'')
              \<and> (field (photos ! i) ''filename'' \<noteq> JStr f \<longrightarrow> photos' ! i = photos ! i))"
      by blast
  qed
  from a b c d e show ?thesis by blast
qed

theorem coordinates_paired_unless_edited_witness:
  "all_paired scanned_x
 \<and> all_paired (snd (scan_portfolio (Some dir_ab) ''2025-01-16'' scanned_x))
 \<and> all_paired (snd (update_photo ''x.jpg'' ''title'' ''Foo'' scanned_x))
 \<and> photos_json scanned_x = Some [photo_obj 1 ''x.jpg'' ''2025-01-15'']
 \<and> (\<exists>photos'.
        photos_json (snd (update_photo ''x.jpg'' ''lat'' ''37.8199'' scanned_x)) = Some photos'
      \<and> length photos' = 1
      \<and> field (photos' ! 0) ''lat'' = JStr ''37.8199''
      \<and> field (photos' ! 0) ''lng'' = JNull)"
proof -
  have p: "all_paired scanned_x"
    by (simp add: scanned_x_eq all_paired_def paired_def photo_obj_fields)
  have t: "''title'' \<noteq> ''lat''" "''title'' \<noteq> ''lng''" by simp_all
  have s: "photos_json scanned_x = Some [photo_obj 1 ''x.jpg'' ''2025-01-15'']"
    by (simp add: scanned_x_eq)
  have x: "field ([photo_obj 1 ''x.jpg'' ''2025-01-15''] ! 0) ''filename'' = JStr ''x.jpg''"
    "field ([photo_obj 1 ''x.jpg'' ''2025-01-15''] ! 0) ''lng'' = JNull"
    by (simp_all add: photo_obj_fields)
  from coordinates_paired_unless_edited
         [of dir_ab "''2025-01-16''" scanned_x "Some dir_ab" "''title''" "''x.jpg''" "''Foo''"]
       p t
  have 1: "all_paired (snd (scan_portfolio (Some dir_ab) ''2025-01-16'' scanned_x))"
    and 2: "all_paired (snd (update_photo ''x.jpg'' ''title'' ''Foo'' scanned_x))"
    by blast+
  from coordinates_paired_unless_edited
         [of dir_ab "''2025-01-16''" scanned_x "Some dir_ab" "''title''" "''x.jpg''" "''37.8199''"]
       s
  obtain photos' where
    r: "photos_json (snd (update_photo ''x.jpg'' ''lat'' ''37.8199'' scanned_x)) = Some photos'"
    and l: "length photos' = length [photo_obj 1 ''x.jpg'' ''2025-01-15'']"
    and e: "\<forall>i<length [photo_obj 1 ''x.jpg'' ''2025-01-15''].
                (field ([photo_obj 1 ''x.jpg'' ''2025-01-15''] ! i) ''filename'' = JStr ''x.jpg'' \<longrightarrow>
                   field (photos' ! i) ''lat'' = JStr ''37.8199''
                 \<and> field (photos' ! i) ''lng''
                     = field ([photo_obj 1 ''x.jpg'' ''2025-01-15''] ! i) ''lng'')
              \<and> (field ([photo_obj 1 ''x.jpg'' ''2025-01-15''] ! i) ''filename'' \<noteq> JStr ''x.jpg''
                   \<longrightarrow> photos' ! i = [photo_obj 1 ''x.jpg'' ''2025-01-15''] ! i)"
    by blast
  from e x have 3: "field (photos' ! 0) ''lat'' = JStr ''37.8199''"
    and 4: "field (photos' ! 0) ''lng'' = JNull"
    by simp_all
  from l have 5: "length photos' = 1" by simp
  from p 1 2 s r 3 4 5 show ?thesis by blast
qed

text \<open>
  After a scan, \<^verbatim>\<open>update x.jpg lat 37.8199\<close> (the first of the two edits the
  README gives for coordinates) leaves the record with lat set and lng null.
\<close>

theorem coordinate_pairing_counterexample:
  "all_paired scanned_x
 \<and> shown ''x.jpg'' ''lat'' (snd (update_photo ''x.jpg'' ''lat'' ''37.8199'' scanned_x))
      = Some (JStr ''37.8199'')
 \<and> shown ''x.jpg'' ''lng'' (snd (update_photo ''x.jpg'' ''lat'' ''37.8199'' scanned_x))
      = Some JNull
 \<and> \<not> all_paired (snd (update_photo ''x.jpg'' ''lat'' ''37.8199'' scanned_x))"
  by (simp add: scanned_x_eq all_paired_def paired_def shown_def record_of_def
      update_photo_def jq_update_def photo_obj_fields field_update_same field_update_other)

subsection \<open>Running twice\<close>

text \<open>
  C2 (as the script does it). With the same directory contents and the same date, a
  second scan after a successful one leaves the state exactly as it is; a second
  \<^verbatim>\<open>manage_release\<close> without \<^verbatim>\<open>--force\<close> after a successful one does the same, and
  so does a second \<^verbatim>\<open>setup\<close> without \<^verbatim>\<open>--force\<close>: the metadata is identical, the
  release is untouched and no file is uploaded.
\<close>

theorem rerun_same_day_idempotent:
  "(scan_portfolio portfolio date w = (None, w1)
      \<longrightarrow> scan_portfolio portfolio date w1 = (None, w1))
 \<and> (manage_release force portfolio h w = (None, w2)
      \<longrightarrow> manage_release False portfolio h w2 = (None, w2))
 \<and> (main_setup force portfolio date h w = (None, w3)
      \<longrightarrow> main_setup False portfolio date h w3 = (None, w3))"
proof -
  have a: "scan_portfolio portfolio date w = (None, w1)
      \<longrightarrow> scan_portfolio portfolio date w1 = (None, w1)"
    using scan_portfolio_again by blast
  have b: "manage_release force portfolio h w = (None, w2)
      \<longrightarrow> manage_release False portfolio h w2 = (None, w2)"
    using manage_release_done manage_release_again by blast
  have c: "main_setup force portfolio date h w = (None, w3)
      \<longrightarrow> main_setup False portfolio date h w3 = (None, w3)"
  proof
    assume r: "main_setup force portfolio date h w = (None, w3)"
    then obtain w' where m: "manage_release force portfolio h w = (None, w')"
      and s: "scan_portfolio portfolio date w' = (None, w3)"
      by (auto simp: main_setup_def split: prod.splits option.splits)
    from m have "release w' \<noteq> None" by (rule manage_release_done)
    with s have "release w3 \<noteq> None"
      by (cases portfolio) (auto simp: scan_portfolio_def)
    then have "manage_release False portfolio h w3 = (None, w3)"
      by (rule manage_release_again)
    moreover from s have "scan_portfolio portfolio date w3 = (None, w3)"
      by (rule scan_portfolio_again)
    ultimately show "main_setup False portfolio date h w3 = (None, w3)"
      by (simp add: main_setup_def)
  qed
  from a b c show ?thesis by blast
qed

theorem rerun_same_day_idempotent_witness:
  "main_setup False (Some dir_x) ''2025-01-15'' accepts_all no_files_yet
     = (None, \<lparr>photos_json = Some [photo_obj 1 ''x.jpg'' ''2025-01-15''],
               release = Some [''x.jpg''], uploads = [''x.jpg'']\<rparr>)
 \<and> main_setup False (Some dir_x) ''2025-01-15'' accepts_all
       \<lparr>photos_json = Some [photo_obj 1 ''x.jpg'' ''2025-01-15''],
        release = Some [''x.jpg''], uploads = [''x.jpg'']\<rparr>
     = (None, \<lparr>photos_json = Some [photo_obj 1 ''x.jpg'' ''2025-01-15''],
               release = Some [''x.jpg''], uploads = [''x.jpg'']\<rparr>)"
  using rerun_same_day_idempotent
          [of "Some dir_x" "''2025-01-15''" no_files_yet _ False accepts_all _
              "\<lparr>photos_json = Some [photo_obj 1 ''x.jpg'' ''2025-01-15''],
                release = Some [''x.jpg''], uploads = [''x.jpg'']\<rparr>"]
        setup_x
  by blast

text \<open>
  A scan on the next day stamps every record with the new date, the directory being
  unchanged; and a second \<^verbatim>\<open>manage_release\<close> with \<^verbatim>\<open>--force\<close> uploads the same
  file once more.
\<close>

theorem rerun_counterexample:
  "shown ''x.jpg'' ''date'' scanned_x = Some (JStr ''2025-01-15'')
 \<and> shown ''x.jpg'' ''date'' (snd (scan_portfolio (Some dir_x) ''2025-01-16'' scanned_x))
      = Some (JStr ''2025-01-16'')
 \<and> uploads (snd (manage_release True (Some dir_x) accepts_all no_files_yet)) = [''x.jpg'']
 \<and> uploads (snd (manage_release True (Some dir_x) accepts_all
                (snd (manage_release True (Some dir_x) accepts_all no_files_yet))))
      = [''x.jpg'', ''x.jpg'']"
proof -
  have a: "shown ''x.jpg'' ''date'' scanned_x = Some (JStr ''2025-01-15'')"
    by (simp add: scanned_x_eq shown_def record_of_def photo_obj_fields)
  have b: "shown ''x.jpg'' ''date'' (snd (scan_portfolio (Some dir_x) ''2025-01-16'' scanned_x))
      = Some (JStr ''2025-01-16'')"
    by (simp add: shown_def record_of_def photos_json_scan image_files_examples
        photo_obj_fields)
  have c: "manage_release True (Some dir_x) accepts_all no_files_yet
      = (None, \<lparr>photos_json = None, release = Some [''x.jpg''], uploads = [''x.jpg'']\<rparr>)"
    by (simp add: manage_release_def gh_release_create_def image_files_examples
        no_files_yet_def accepts_all_def Let_def)
  have d: "manage_release True (Some dir_x) accepts_all
             \<lparr>photos_json = None, release = Some [''x.jpg''], uploads = [''x.jpg'']\<rparr>
      = (None, \<lparr>photos_json = None, release = Some [''x.jpg''],
                uploads = [''x.jpg'', ''x.jpg'']\<rparr>)"
    by (simp add: manage_release_def gh_release_create_def image_files_examples
        accepts_all_def Let_def)
  from a b c d show ?thesis by simp
qed

subsection \<open>A failing upload\<close>

text \<open>
  C8 (as the script does it). With the portfolio directory in place, \<^verbatim>\<open>setup\<close>
  uploads only when a release has to be created, that is when none exists or
  \<^verbatim>\<open>--force\<close> is given; it then hands all image files to the host in one
  \<^verbatim>\<open>gh release create\<close> and scans afterwards.
  \<^item> When the release exists and \<^verbatim>\<open>--force\<close> is not given, nothing is uploaded, the
    release stays as it is, and the scan writes a record for each image file, in the
    order of the listing, whatever the host would accept.
  \<^item> When a release has to be created and there is no image file, the run stops with
    an error, nothing is uploaded and \<^verbatim>\<open>photos.json\<close> is left as it was.
  \<^item> When a release has to be created and the host rejects any image file, the run
    stops with a non-zero status before the scan, after handing over all files, and
    \<^verbatim>\<open>photos.json\<close> is left as it was.
  \<^item> When a release has to be created and the host accepts every image file, the run
    succeeds, the release holds all image files and the metadata written has a record
    for each of them, in the order of the listing.
\<close>

theorem setup_upload_failure_aborts:
  "(release w \<noteq> None \<and> \<not> force \<longrightarrow>
      fst (main_setup force (Some es) date h w) = None
    \<and> release (snd (main_setup force (Some es) date h w)) = release w
    \<and> uploads (snd (main_setup force (Some es) date h w)) = uploads w
    \<and> (\<exists>photos.
          photos_json (snd (main_setup force (Some es) date h w)) = Some photos
        \<and> map (\<lambda>p. field p ''filename'') photos = map JStr (image_files es)))
 \<and> ((release w = None \<or> force) \<and> image_files es = [] \<longrightarrow>
      fst (main_setup force (Some es) date h w) = Some NoImageFiles
    \<and> photos_json (snd (main_setup force (Some es) date h w)) = photos_json w
    \<and> uploads (snd (main_setup force (Some es) date h w)) = uploads w)
 \<and> ((release w = None \<or> force) \<and> image_files es \<noteq> []
      \<and> \<not> list_all (upload_ok h) (image_files es) \<longrightarrow>
      fst (main_setup force (Some es) date h w) = Some ReleaseCreateFailed
    \<and> photos_json (snd (main_setup force (Some es) date h w)) = photos_json w
    \<and> uploads (snd (main_setup force (Some es) date h w)) = uploads w @ image_files es)
 \<and> ((release w = None \<or> force) \<and> image_files es \<noteq> []
      \<and> list_all (upload_ok h) (image_files es) \<longrightarrow>
      fst (main_setup force (Some es) date h w) = None
    \<and> release (snd (main_setup force (Some es) date h w)) = Some (image_files es)
    \<and> uploads (snd (main_setup force (Some es) date h w)) = uploads w @ image_files es
    \<and> (\<exists>photos.
          photos_json (snd (main_setup force (Some es) date h w)) = Some photos
        \<and> map (\<lambda>p. field p ''filename'') photos = map JStr (image_files es)))"
proof -
  let ?r = "main_setup force (Some es) date h w"
  have a: "release w \<noteq> None \<and> \<not> force \<longrightarrow>
      fst ?r = None \<and> release (snd ?r) = release w \<and> uploads (snd ?r) = uploads w
    \<and> (\<exists>photos. photos_json (snd ?r) = Some photos
        \<and> map (\<lambda>p. field p ''filename'') photos = map JStr (image_files es))"
  proof
    assume "release w \<noteq> None \<and> \<not> force"
    then have "?r = scan_portfolio (Some es) date w"
      by (simp add: main_setup_no_create)
    then show "fst ?r = None \<and> release (snd ?r) = release w \<and> uploads (snd ?r) = uploads w
    \<and> (\<exists>photos. photos_json (snd ?r) = Some photos
        \<and> map (\<lambda>p. field p ''filename'') photos = map JStr (image_files es))"
      by (simp add: scan_portfolio_Some filenames_records_from)
  qed
  have b: "(release w = None \<or> force) \<and> image_files es = [] \<longrightarrow>
      fst ?r = Some NoImageFiles \<and> photos_json (snd ?r) = photos_json w
    \<and> uploads (snd ?r) = uploads w"
  proof
    assume h: "(release w = None \<or> force) \<and> image_files es = []"
    then have "manage_release force (Some es) h w = (Some NoImageFiles, w\<lparr>release := None\<rparr>)"
      by (simp add: manage_release_create)
    then show "fst ?r = Some NoImageFiles \<and> photos_json (snd ?r) = photos_json w
    \<and> uploads (snd ?r) = uploads w"
      by (simp add: main_setup_def)
  qed
  have c: "(release w = None \<or> force) \<and> image_files es \<noteq> []
      \<and> \<not> list_all (upload_ok h) (image_files es) \<longrightarrow>
      fst ?r = Some ReleaseCreateFailed \<and> photos_json (snd ?r) = photos_json w
    \<and> uploads (snd ?r) = uploads w @ image_files es"
  proof
    assume h: "(release w = None \<or> force) \<and> image_files es \<noteq> []
      \<and> \<not> list_all (upload_ok h) (image_files es)"
    then have "manage_release force (Some es) h w
        = (Some ReleaseCreateFailed,
           w\<lparr>release := after_failed_create h (image_files es),
             uploads := uploads w @ image_files es\<rparr>)"
      by (simp add: manage_release_create gh_release_create_def)
    then show "fst ?r = Some ReleaseCreateFailed \<and> photos_json (snd ?r) = photos_json w
    \<and> uploads (snd ?r) = uploads w @ image_files es"
      by (simp add: main_setup_def)
  qed
  have d: "(release w = None \<or> force) \<and> image_files es \<noteq> []
      \<and> list_all (upload_ok h) (image_files es) \<longrightarrow>
      fst ?r = None \<and> release (snd ?r) = Some (image_files es)
    \<and> uploads (snd ?r) = uploads w @ image_files es
    \<and> (\<exists>photos. photos_json (snd ?r) = Some photos
        \<and> map (\<lambda>p. field p ''filename'') photos = map JStr (image_files es))"
  proof
    assume h: "(release w = None \<or> force) \<and> image_files es \<noteq> []
      \<and> list_all (upload_ok h) (image_files es)"
    then have "manage_release force (Some es) h w
        = (None, w\<lparr>release := Some (image_files es),
                   uploads := uploads w @ image_files es\<rparr>)"
      by (simp add: manage_release_create gh_release_create_def)
    then show "fst ?r = None \<and> release (snd ?r) = Some (image_files es)
    \<and> uploads (snd ?r) = uploads w @ image_files es
    \<and> (\<exists>photos. photos_json (snd ?r) = Some photos
        \<and> map (\<lambda>p. field p ''filename'') photos = map JStr (image_files es))"
      by (simp add: main_setup_def scan_portfolio_Some filenames_records_from)
  qed
  from a b c d show ?thesis by blast
qed

theorem setup_upload_failure_aborts_witness:
  "release no_files_yet = None
 \<and> image_files dir_abc \<noteq> []
 \<and> \<not> list_all (upload_ok rejects_b) (image_files dir_abc)
 \<and> list_all (upload_ok accepts_all) (image_files dir_abc)
 \<and> fst (main_setup False (Some dir_abc) ''2025-01-15'' rejects_b no_files_yet)
      = Some ReleaseCreateFailed
 \<and> photos_json (snd (main_setup False (Some dir_abc) ''2025-01-15'' rejects_b no_files_yet))
      = None
 \<and> fst (main_setup False (Some dir_abc) ''2025-01-15'' accepts_all no_files_yet) = None
 \<and> release (snd (main_setup False (Some dir_abc) ''2025-01-15'' accepts_all no_files_yet))
      = Some [''a.jpg'', ''b.jpg'', ''c.jpg'']
 \<and> image_files [] = []
 \<and> fst (main_setup False (Some []) ''2025-01-15'' accepts_all no_files_yet) = Some NoImageFiles
 \<and> release released_x \<noteq> None
 \<and> fst (main_setup False (Some dir_abc) ''2025-01-15'' rejects_b released_x) = None
 \<and> uploads (snd (main_setup False (Some dir_abc) ''2025-01-15'' rejects_b released_x))
      = uploads released_x"
proof -
  have r: "release no_files_yet = None" by (simp add: no_files_yet_def)
  have i: "image_files dir_abc \<noteq> []" by (simp add: image_files_examples)
  have b: "\<not> list_all (upload_ok rejects_b) (image_files dir_abc)"
    by (simp add: image_files_examples rejects_b_def)
  have a: "list_all (upload_ok accepts_all) (image_files dir_abc)"
    by (simp add: image_files_examples accepts_all_def)
  have n: "photos_json no_files_yet = None" by (simp add: no_files_yet_def)
  have e: "image_files [] = []" by (simp add: image_files_examples)
  have x: "release released_x \<noteq> None" by (simp add: released_x_def)
  from setup_upload_failure_aborts [of no_files_yet False dir_abc "''2025-01-15''" rejects_b]
       r i b n
  have 1: "fst (main_setup False (Some dir_abc) ''2025-01-15'' rejects_b no_files_yet)
      = Some ReleaseCreateFailed"
    and 2: "photos_json (snd (main_setup False (Some dir_abc) ''2025-01-15'' rejects_b no_files_yet))
      = None"
    by simp_all
  from setup_upload_failure_aborts [of no_files_yet False dir_abc "''2025-01-15''" accepts_all]
       r i a
  have 3: "fst (main_setup False (Some dir_abc) ''2025-01-15'' accepts_all no_files_yet) = None"
    and 4: "release (snd (main_setup False (Some dir_abc) ''2025-01-15'' accepts_all no_files_yet))
      = Some [''a.jpg'', ''b.jpg'', ''c.jpg'']"
    by (simp_all add: image_files_examples)
  from setup_upload_failure_aborts [of no_files_yet False "[]" "''2025-01-15''" accepts_all]
       r e
  have 5: "fst (main_setup False (Some []) ''2025-01-15'' accepts_all no_files_yet)
      = Some NoImageFiles"
    by simp
  from setup_upload_failure_aborts [of released_x False dir_abc "''2025-01-15''" rejects_b] x
  have 6: "fst (main_setup False (Some dir_abc) ''2025-01-15'' rejects_b released_x) = None"
    and 7: "uploads (snd (main_setup False (Some dir_abc) ''2025-01-15'' rejects_b released_x))
      = uploads released_x"
    by simp_all
  from r i b a 1 2 3 4 e 5 x 6 7 show ?thesis by simp
qed

text \<open>
  With three files of which the host rejects the second, \<^verbatim>\<open>setup\<close> on a fresh
  state stops after the upload; no metadata file is written, so there is no record
  for the two files that were accepted.
\<close>

theorem partial_upload_counterexample:
  "upload_ok rejects_b ''a.jpg'' \<and> \<not> upload_ok rejects_b ''b.jpg'' \<and> upload_ok rejects_b ''c.jpg''
 \<and> main_setup False (Some dir_abc) ''2025-01-15'' rejects_b no_files_yet
      = (Some ReleaseCreateFailed,
         \<lparr>photos_json = None, release = None, uploads = [''a.jpg'', ''b.jpg'', ''c.jpg'']\<rparr>)
 \<and> record_of ''a.jpg''
      (snd (main_setup False (Some dir_abc) ''2025-01-15'' rejects_b no_files_yet)) = None
 \<and> record_of ''c.jpg''
      (snd (main_setup False (Some dir_abc) ''2025-01-15'' rejects_b no_files_yet)) = None"
proof -
  have r: "main_setup False (Some dir_abc) ''2025-01-15'' rejects_b no_files_yet
      = (Some ReleaseCreateFailed,
         \<lparr>photos_json = None, release = None, uploads = [''a.jpg'', ''b.jpg'', ''c.jpg'']\<rparr>)"
    by (simp add: main_setup_def manage_release_def gh_release_create_def Let_def
        image_files_examples no_files_yet_def rejects_b_def)
  show ?thesis unfolding r by (simp add: rejects_b_def record_of_def)
qed

end
